theory Spec2Isabelle
  imports Complex_Main "HOL-Library.Word"
begin

unbundle bit_operations_syntax

section \<open>The simulation engine of the asset risk dashboard (calculations.ts)\<close>

text \<open>
  The engine turns one parameter record into four cost curves, four risk curves and
  their summaries. This theory embeds \<^verbatim>\<open>src/calculations.ts\<close> function by function.

  Numbers. A JavaScript \<^verbatim>\<open>number\<close> is modelled as a \<^typ>\<open>real\<close>: arithmetic is exact,
  \<^verbatim>\<open>Math.exp\<close>, \<^verbatim>\<open>Math.cos\<close> and \<^verbatim>\<open>Math.PI\<close> are \<^term>\<open>exp\<close>, \<^term>\<open>cos\<close> and \<^term>\<open>pi\<close>.
  Rounding of IEEE doubles, \<^verbatim>\<open>NaN\<close> and the infinities are not represented. Where the
  source divides by zero (\<^verbatim>\<open>points = 1\<close>, \<^verbatim>\<open>lifespan = 0\<close>, \<^verbatim>\<open>cycleLength = 0\<close>) the
  numeric values of the model are therefore not those of the program, and the theorems
  about such inputs speak of the control flow only: whether the call returns, throws or
  loops, and how long the returned arrays are. The one place where an infinity decides
  the control flow (the bound of the maintenance-cycle loop, and its counter, which stops
  growing at \<open>2^53\<close>) is modelled explicitly. A value of the program can differ from the
  model's by rounding; the theorems about values are therefore kept to statements that
  rounding to nearest cannot turn: equations that the program computes by the same
  formula, signs of sums and products of terms that are at least 0, non-strict bounds
  that follow from a comparison the code itself makes, and strict comparisons with a
  margin far above one unit in the last place. Their hypotheses keep the inputs away
  from \<^verbatim>\<open>NaN\<close>, overflow of the loop bound and underflow of the sample times.
  The sample count \<^verbatim>\<open>points\<close> is an integer. The 32-bit integer arithmetic of the
  sequence generator (\<^verbatim>\<open>Math.imul\<close>, \<^verbatim>\<open>^\<close>, \<^verbatim>\<open>|\<close>, \<^verbatim>\<open>>>>\<close>) is modelled on \<^typ>\<open>32 word\<close>.

  Effects. A call of \<^verbatim>\<open>mulberry32\<close> creates a closure that owns a mutable variable
  \<^verbatim>\<open>seed\<close>; the closures live in an explicit store, and every function that creates
  or calls one takes the store and returns the new one. An exception is a value of
  \<open>error + 'a\<close>; a call that does not return is \<open>None\<close>.
\<close>

subsection \<open>Data model\<close>

text \<open>\<^verbatim>\<open>Record<StrategyKey, number>\<close>: one number for each of the four strategies.\<close>

record StrategyValues =
  noFix :: real
  fixInPlan :: real
  fixOnFail :: real
  fixOnRisk :: real

text \<open>
  \<^verbatim>\<open>CurvePoint\<close>: the four strategy values with the absolute time \<^verbatim>\<open>t\<close> and the
  normalized time \<^verbatim>\<open>x\<close> (named \<open>t_abs\<close> and \<open>x_norm\<close> here).
\<close>

record CurvePoint = StrategyValues +
  t_abs :: real
  x_norm :: real

record DashboardParams =
  lifespanYears :: real
  replacementCost :: real
  riskAlpha :: real
  minLof :: real
  cycleLengthYears :: real
  threshold :: real
  points :: int

record Curves =
  cost :: "CurvePoint list"
  risk :: "CurvePoint list"
  totalCosts :: StrategyValues
  averageRisk :: StrategyValues
  thresholdDollar :: real

text \<open>The only exception the engine can raise: reading a property of \<^verbatim>\<open>undefined\<close>.\<close>

datatype error = TypeError

subsection \<open>Deterministic sequence generator\<close>

text \<open>
  The store holds the captured \<^verbatim>\<open>seed\<close> variable of every generator instance made so
  far; an instance is the index of its variable.
\<close>

type_synonym heap = "int list"
type_synonym rng = nat

definition mulberry32 :: "int \<Rightarrow> heap \<Rightarrow> rng \<times> heap" where
  "mulberry32 seed h = (length h, h @ [seed])"

text \<open>
  The body of the closure after \<^verbatim>\<open>seed += 0x6d2b79f5\<close>. The sum is kept as an integer
  (the source does not truncate \<^verbatim>\<open>seed\<close>); the bitwise operators reduce it modulo \<open>2^32\<close>.
\<close>

definition mulberry32_mix :: "int \<Rightarrow> real" where
  "mulberry32_mix seed =
     (let t0 = (word_of_int seed :: 32 word);
          t1 = (t0 XOR drop_bit 15 t0) * (t0 OR 1);
          t2 = t1 XOR (t1 + (t1 XOR drop_bit 7 t1) * (t1 OR 61))
      in real (unat (t2 XOR drop_bit 14 t2)) / 4294967296)"

definition rng_call :: "rng \<Rightarrow> heap \<Rightarrow> real \<times> heap" where
  "rng_call r h =
     (let seed = h ! r + 0x6d2b79f5
      in (mulberry32_mix seed, h[r := seed]))"

subsection \<open>Probability-of-failure model\<close>

text \<open>
  In exact arithmetic the logistic curve lies strictly between 0 and 1. The program's
  value lies between 0 and 1 inclusive: it is exactly 1 once \<^verbatim>\<open>1 + Math.exp(..)\<close> rounds
  to 1. Only the inclusive bounds are used below.
\<close>

definition logisticCurve :: "real \<Rightarrow> real \<Rightarrow> real \<Rightarrow> real" where
  "logisticCurve x alpha midpoint = 1 / (1 + exp (- alpha * (x - midpoint)))"

definition calculateLof :: "real \<Rightarrow> real \<Rightarrow> real \<Rightarrow> real" where
  "calculateLof ageNormalized lofAlpha minLof' =
     (let f = logisticCurve ageNormalized lofAlpha 0.7
      in minLof' + (1 - minLof') * f)"

subsection \<open>Cost curves\<close>

text \<open>
  \<^verbatim>\<open>generateCostCurves\<close> (lines 60 to 171 of calculations.ts): the failure events and
  the interventions are drawn up first, then every sample recomputes the four values.
\<close>

definition maxFailures :: int where
  "maxFailures = max 3 \<lfloor>2 + 3 * (1::real) ^ 2\<rfloor>"

text \<open>One round of the failure-event loop of the cost generator: two draws.\<close>

definition costFailureStep ::
  "rng \<Rightarrow> real \<Rightarrow> real \<Rightarrow> nat \<Rightarrow> real list \<times> real list \<times> heap \<Rightarrow> real list \<times> real list \<times> heap" where
  "costFailureStep g lifespan replacementCost' i =
     (\<lambda>(failTimes, failCosts, h).
        let basePosition = 0.3 + (real (i + 1) / real_of_int maxFailures) * 0.7;
            (u, h1) = rng_call g h;
            randomOffset = u * 0.1 - 0.05;
            failurePosition = min 1 (max 0.3 (basePosition + randomOffset));
            failureTime = failurePosition * lifespan;
            (v, h2) = rng_call g h1;
            repairFraction = 0.3 + v * 0.2
        in (failTimes @ [failureTime], failCosts @ [repairFraction * replacementCost'], h2))"

definition costFailureSchedule ::
  "rng \<Rightarrow> real \<Rightarrow> real \<Rightarrow> heap \<Rightarrow> real list \<times> real list \<times> heap" where
  "costFailureSchedule g lifespan replacementCost' h =
     fold (costFailureStep g lifespan replacementCost') [0..<nat maxFailures] ([], [], h)"

definition interventionSchedule :: "real \<Rightarrow> real list" where
  "interventionSchedule lifespan =
     fold (\<lambda>k interventions.
             let position = 0.3 + real k * 0.15;
                 tIntervention = min position 1 * lifespan
             in interventions @ [tIntervention])
          [1..<Suc 4] []"

text \<open>
  The value of \<^verbatim>\<open>Math.floor(lifespan / cycleLength)\<close> as the bound of the cycle loop.
  With \<^verbatim>\<open>cycleLength = 0\<close> (read as the positive zero; a real number has no sign of
  zero) the quotient is \<^verbatim>\<open>Infinity\<close> for a positive lifespan, and \<^verbatim>\<open>-Infinity\<close> or
  \<^verbatim>\<open>NaN\<close> otherwise; \<^verbatim>\<open>c <= nCycles\<close> then holds for every \<open>c\<close> in the first case and
  fails for \<open>c = 1\<close> in the other two, as it does for the bound 0. A quotient of
  \<open>2^1024\<close> or more overflows to \<^verbatim>\<open>Infinity\<close> as well. The quotient itself is taken
  exactly; the program rounds it, which can move the bound by one and, just below
  \<open>2^53\<close>, lift it to \<open>2^53\<close>. No theorem below that says the entry point returns covers
  a cycle length of 0 or a quotient of \<open>2^52\<close> or more.
\<close>

datatype bound = Fin int | Infty

definition nCyclesOf :: "real \<Rightarrow> real \<Rightarrow> bound" where
  "nCyclesOf lifespan cycleLength =
     (if cycleLength = 0 then (if 0 < lifespan then Infty else Fin 0)
      else if 2 ^ 1024 \<le> lifespan / cycleLength then Infty
      else Fin \<lfloor>lifespan / cycleLength\<rfloor>)"

fun withinBound :: "int \<Rightarrow> bound \<Rightarrow> bool" where
  "withinBound c (Fin n) = (c \<le> n)"
| "withinBound c Infty = True"

text \<open>
  \<^verbatim>\<open>for (let c = 1; c <= nCycles; c++) { if (t >= c * cycleLength) cycleCost += C_cycle }\<close>
  The counter \<open>c\<close> is a double: \<^verbatim>\<open>c++\<close> adds 1 up to \<open>2^53\<close> and leaves \<open>c\<close> as it is
  from there on, so a bound of \<open>2^53\<close> or more is never passed.
\<close>

partial_function (option) cycleLoop ::
  "real \<Rightarrow> real \<Rightarrow> real \<Rightarrow> bound \<Rightarrow> int \<Rightarrow> real \<Rightarrow> real option" where
  "cycleLoop t cycleLength C_cycle nCycles c cycleCost =
     (if withinBound c nCycles
      then cycleLoop t cycleLength C_cycle nCycles
             (if c < 9007199254740992 then c + 1 else c)
             (if t \<ge> real_of_int c * cycleLength then cycleCost + C_cycle else cycleCost)
      else Some cycleCost)"

text \<open>The body of the sample loop of the cost generator, for sample \<open>i\<close>.\<close>

definition costSample ::
  "real \<Rightarrow> real \<Rightarrow> real \<Rightarrow> int \<Rightarrow> real list \<Rightarrow> real list \<Rightarrow> real list \<Rightarrow> nat \<Rightarrow> CurvePoint option" where
  "costSample lifespan replacementCost' cycleLength points' failTimes failCosts interventions i =
     (let C_intervention = 0.2 * replacementCost';
          baselineNoFixRate = 0.05 * replacementCost';
          baselineFixInPlanRate = 0.02 * replacementCost';
          baselineFixOnFailRate = 0.01 * replacementCost';
          baselineFixOnRiskRate = 0.02 * replacementCost';
          x = real i / real_of_int (points' - 1);
          t = x * lifespan;
          baselineNoFix = (baselineNoFixRate * t) / lifespan;
          catastrophicReplacement = (if t \<ge> 0.9 * lifespan then replacementCost' else 0);
          cumulativeNoFix = baselineNoFix + catastrophicReplacement;
          baselineFixInPlan = (baselineFixInPlanRate * t) / lifespan;
          nCycles = nCyclesOf lifespan cycleLength;
          C_cycle = 0.15 * replacementCost'
      in case cycleLoop t cycleLength C_cycle nCycles 1 0 of
           None \<Rightarrow> None
         | Some cycleCost \<Rightarrow>
            (let cumulativeFixInPlan = baselineFixInPlan + cycleCost;
                 baselineFail = (baselineFixOnFailRate * t) / lifespan;
                 emergencyCost =
                   fold (\<lambda>j emergencyCost.
                           if t \<ge> failTimes ! j then emergencyCost + failCosts ! j
                           else emergencyCost)
                        [0..<length failTimes] 0;
                 cumulativeFixOnFail = baselineFail + emergencyCost;
                 baselineRisk = (baselineFixOnRiskRate * t) / lifespan;
                 riskInterventionCost =
                   fold (\<lambda>tInt riskInterventionCost.
                           if t \<ge> tInt then riskInterventionCost + C_intervention
                           else riskInterventionCost)
                        interventions 0;
                 cumulativeFixOnRisk = baselineRisk + riskInterventionCost
             in Some \<lparr>noFix = cumulativeNoFix, fixInPlan = cumulativeFixInPlan,
                      fixOnFail = cumulativeFixOnFail, fixOnRisk = cumulativeFixOnRisk,
                      t_abs = t, x_norm = x\<rparr>))"

text \<open>The sample loop: it returns only if every round does.\<close>

fun costLoop :: "(nat \<Rightarrow> CurvePoint option) \<Rightarrow> nat list \<Rightarrow> CurvePoint list \<Rightarrow> CurvePoint list option" where
  "costLoop body [] result = Some result"
| "costLoop body (i # is) result =
     (case body i of None \<Rightarrow> None | Some p \<Rightarrow> costLoop body is (result @ [p]))"

definition generateCostCurves ::
  "real \<Rightarrow> real \<Rightarrow> real \<Rightarrow> real \<Rightarrow> int \<Rightarrow> heap \<Rightarrow> (CurvePoint list \<times> heap) option" where
  "generateCostCurves lifespan costCurveAlpha replacementCost' cycleLength points' h =
     (let (g, h1) = mulberry32 42 h;
          (failTimes, failCosts, h2) = costFailureSchedule g lifespan replacementCost' h1;
          interventions = interventionSchedule lifespan
      in case costLoop
                (costSample lifespan replacementCost' cycleLength points' failTimes failCosts interventions)
                [0..<nat points'] [] of
           None \<Rightarrow> None
         | Some result \<Rightarrow> Some (result, h2))"

subsection \<open>Risk curves\<close>

text \<open>
  \<^verbatim>\<open>generateRiskCurves\<close> (lines 175 to 284 of calculations.ts): its own failure times,
  sorted, then a sample loop that carries the Fix-on-Fail position and the Fix-on-Risk
  likelihood from one sample to the next.
\<close>

text \<open>One round of the failure-time loop of the risk generator: one draw.\<close>

definition riskFailureStep :: "rng \<Rightarrow> real \<Rightarrow> nat \<Rightarrow> real list \<times> heap \<Rightarrow> real list \<times> heap" where
  "riskFailureStep g lifespan i =
     (\<lambda>(failTimes, h).
        let basePosition = 0.3 + (real (i + 1) / real_of_int maxFailures) * 0.7;
            (u, h1) = rng_call g h;
            randomOffset = u * 0.1 - 0.05;
            failurePosition = min 1 (max 0.3 (basePosition + randomOffset));
            failureTime = failurePosition * lifespan
        in (failTimes @ [failureTime], h1))"

definition riskFailureSchedule :: "rng \<Rightarrow> real \<Rightarrow> heap \<Rightarrow> real list \<times> heap" where
  "riskFailureSchedule g lifespan h =
     (let (failTimes, h') = fold (riskFailureStep g lifespan) [0..<nat maxFailures] ([], h)
      in (sort failTimes, h'))"

text \<open>
  The remainder operator \<^verbatim>\<open>%\<close> on numbers: the quotient is truncated towards zero.
  (For a zero divisor JavaScript gives \<^verbatim>\<open>NaN\<close>, which the model does not represent.)
\<close>

definition jsRem :: "real \<Rightarrow> real \<Rightarrow> real" where
  "jsRem a b = a - b * real_of_int (if 0 \<le> a / b then \<lfloor>a / b\<rfloor> else \<lceil>a / b\<rceil>)"

text \<open>The variables that the sample loop of the risk generator carries from round to round.\<close>

record RiskState =
  currentLof :: real
  lastFailureTime :: real
  failureIndex :: nat

text \<open>
  \<^verbatim>\<open>while (failureIndex < failTimes.length && t > failTimes[failureIndex]) { ... }\<close>
  on the triple (lastFailureTime, failureIndex, lofFixOnFail).
\<close>

function advanceFailures ::
  "real list \<Rightarrow> real \<Rightarrow> real \<Rightarrow> real \<times> nat \<times> real \<Rightarrow> real \<times> nat \<times> real" where
  "advanceFailures failTimes t baselineLof (lastFailureTime', failureIndex', lofFixOnFail) =
     (if failureIndex' < length failTimes \<and> t > failTimes ! failureIndex'
      then advanceFailures failTimes t baselineLof
             (failTimes ! failureIndex', failureIndex' + 1, baselineLof * 2)
      else (lastFailureTime', failureIndex', lofFixOnFail))"
  by pat_completeness auto
termination
  by (relation "measure (\<lambda>(failTimes, t, baselineLof, l, k, f). length failTimes - k)") auto

declare advanceFailures.simps [simp del]

text \<open>
  The Fix-on-Risk sawtooth: grow, compare with the threshold, reset, then use. The sum
  is exact here; the program's rounded sum can fall on the other side of the threshold
  when the exact sum equals it (0.09 + 0.01 against 0.1), so which samples reset is not
  a matter for a theorem below, only the bound that either branch keeps.
\<close>

definition fixOnRiskStep :: "real \<Rightarrow> real \<Rightarrow> real \<Rightarrow> real \<Rightarrow> real \<Rightarrow> real" where
  "fixOnRiskStep riskAlpha' minLof' thresholdLof ageNormalized currentLof' =
     (let growthRate = 0.001 * riskAlpha' * (1 + 2 * ageNormalized);
          grown = currentLof' + growthRate
      in if grown \<ge> thresholdLof then minLof' * 1.5 else grown)"

text \<open>
  The body of the sample loop of the risk generator, for sample \<open>i\<close> in state \<open>s\<close>. With
  \<^verbatim>\<open>points = 1\<close> the program's \<open>x\<close> is \<^verbatim>\<open>0 / 0 = NaN\<close> (here 0), and a product
  \<open>x * lifespan\<close> can underflow in the program; the theorems about values ask for at least
  2 samples and, where two times are compared, for a lifespan away from underflow.
\<close>

definition riskSample ::
  "real \<Rightarrow> real \<Rightarrow> real \<Rightarrow> real \<Rightarrow> real \<Rightarrow> real \<Rightarrow> int \<Rightarrow> real list \<Rightarrow> nat \<Rightarrow> RiskState
     \<Rightarrow> CurvePoint \<times> RiskState" where
  "riskSample lifespan riskAlpha' minLof' cof cycleLength thresholdLof points' failTimes i s =
     (let x = real i / real_of_int (points' - 1);
          t = x * lifespan;
          ageNormalized = x;
          lofNoFix = calculateLof ageNormalized riskAlpha' minLof';
          riskNoFix = lofNoFix * cof;
          cyclePosition = jsRem t cycleLength / cycleLength;
          wave = (1 - cos (2 * pi * cyclePosition)) / 2;
          peakLof = minLof' + (0.3 - minLof') * (1 + 0.5 * ageNormalized);
          lofFixInPlan = minLof' + (peakLof - minLof') * wave;
          riskFixInPlan = lofFixInPlan * cof;
          baselineLof = minLof' * 2;
          (lastFailureTime', failureIndex', lofFixOnFail0) =
            advanceFailures failTimes t baselineLof (lastFailureTime s, failureIndex s, baselineLof);
          nextFailureTime =
            (if failureIndex' < length failTimes then failTimes ! failureIndex' else lifespan);
          lofFixOnFail =
            (if t < nextFailureTime then
               (let progress =
                      (t - lastFailureTime') /
                      (if nextFailureTime - lastFailureTime' = 0 then 1
                       else nextFailureTime - lastFailureTime');
                    growth = baselineLof + (0.9 - baselineLof) * logisticCurve progress (2 * riskAlpha') 0.6
                in min growth 0.999)
             else if t = nextFailureTime then 1.0
             else lofFixOnFail0);
          riskFixOnFail = lofFixOnFail * cof;
          currentLof' = fixOnRiskStep riskAlpha' minLof' thresholdLof ageNormalized (currentLof s);
          lofFixOnRisk = currentLof';
          riskFixOnRisk = lofFixOnRisk * cof
      in (\<lparr>noFix = riskNoFix, fixInPlan = riskFixInPlan, fixOnFail = riskFixOnFail,
            fixOnRisk = riskFixOnRisk, t_abs = t, x_norm = x\<rparr>,
          \<lparr>currentLof = currentLof', lastFailureTime = lastFailureTime',
            failureIndex = failureIndex'\<rparr>))"

fun riskLoop :: "(nat \<Rightarrow> RiskState \<Rightarrow> CurvePoint \<times> RiskState) \<Rightarrow> nat list \<Rightarrow> RiskState \<Rightarrow> CurvePoint list" where
  "riskLoop body [] s = []"
| "riskLoop body (i # is) s = (let (p, s') = body i s in p # riskLoop body is s')"

definition generateRiskCurves ::
  "real \<Rightarrow> real \<Rightarrow> real \<Rightarrow> real \<Rightarrow> real \<Rightarrow> real \<Rightarrow> int \<Rightarrow> heap \<Rightarrow> CurvePoint list \<times> heap" where
  "generateRiskCurves lifespan riskAlpha' minLof' cof cycleLength threshold' points' h =
     (let (g, h1) = mulberry32 42 h;
          (failTimes, h2) = riskFailureSchedule g lifespan h1;
          thresholdLof = threshold';
          s0 = \<lparr>currentLof = minLof' * 1.5, lastFailureTime = 0, failureIndex = 0\<rparr>
      in (riskLoop
            (riskSample lifespan riskAlpha' minLof' cof cycleLength thresholdLof points' failTimes)
            [0..<nat points'] s0,
          h2))"

subsection \<open>Summary metrics and the entry point\<close>

text \<open>
  \<^verbatim>\<open>costPoints[costPoints.length - 1]\<close> is \<^verbatim>\<open>undefined\<close> for an empty array, and reading
  \<^verbatim>\<open>last.noFix\<close> then throws a TypeError.
\<close>

definition calculateTotalCosts :: "CurvePoint list \<Rightarrow> error + StrategyValues" where
  "calculateTotalCosts costPoints =
     (if costPoints = [] then Inl TypeError
      else (let l = costPoints ! (length costPoints - 1)
            in Inr \<lparr>noFix = noFix l, fixInPlan = fixInPlan l,
                     fixOnFail = fixOnFail l, fixOnRisk = fixOnRisk l\<rparr>))"

definition calculateAverageRisk :: "CurvePoint list \<Rightarrow> StrategyValues" where
  "calculateAverageRisk riskPoints =
     (let n = length riskPoints;
          sum = fold (\<lambda>p sum. \<lparr>noFix = noFix sum + noFix p,
                                 fixInPlan = fixInPlan sum + fixInPlan p,
                                 fixOnFail = fixOnFail sum + fixOnFail p,
                                 fixOnRisk = fixOnRisk sum + fixOnRisk p\<rparr>)
                     riskPoints
                     \<lparr>noFix = 0, fixInPlan = 0, fixOnFail = 0, fixOnRisk = 0\<rparr>
      in \<lparr>noFix = noFix sum / real n, fixInPlan = fixInPlan sum / real n,
           fixOnFail = fixOnFail sum / real n, fixOnRisk = fixOnRisk sum / real n\<rparr>)"

text \<open>
  The entry point. \<open>None\<close>: the call does not return; \<open>Some (Inl e, h)\<close>: it throws \<open>e\<close>;
  \<open>Some (Inr r, h)\<close>: it returns \<open>r\<close>. In both latter cases \<open>h\<close> is the store it leaves.
\<close>

definition generateDashboardCurves ::
  "DashboardParams \<Rightarrow> heap \<Rightarrow> ((error + Curves) \<times> heap) option" where
  "generateDashboardCurves params h =
     (let lifespan = lifespanYears params;
          cof = replacementCost params;
          costCurveAlpha = riskAlpha params * 0.8
      in case generateCostCurves lifespan costCurveAlpha (replacementCost params)
                (cycleLengthYears params) (points params) h of
           None \<Rightarrow> None
         | Some (costPoints, h1) \<Rightarrow>
            (let (riskPoints, h2) =
                   generateRiskCurves lifespan (riskAlpha params) (minLof params) cof
                     (cycleLengthYears params) (threshold params) (points params) h1
             in case calculateTotalCosts costPoints of
                  Inl e \<Rightarrow> Some (Inl e, h2)
                | Inr totalCosts' \<Rightarrow>
                   (let averageRisk' = calculateAverageRisk riskPoints;
                        thresholdDollar' = threshold params * cof
                    in Some (Inr \<lparr>cost = costPoints, risk = riskPoints,
                                   totalCosts = totalCosts', averageRisk = averageRisk',
                                   thresholdDollar = thresholdDollar'\<rparr>, h2))))"

subsection \<open>Auxiliary notions\<close>

text \<open>The \<open>k\<close>-th value drawn from an instance made with seed 42.\<close>

definition draw :: "nat \<Rightarrow> real" where
  "draw k = mulberry32_mix (42 + int k * 0x6d2b79f5)"

text \<open>The failure time of round \<open>i\<close> of either failure loop, from the value drawn for it.\<close>

definition failureTimeAt :: "real \<Rightarrow> nat \<Rightarrow> real \<Rightarrow> real" where
  "failureTimeAt lifespan i u =
     min 1 (max 0.3 (0.3 + (real (i + 1) / 5) * 0.7 + (u * 0.1 - 0.05))) * lifespan"

text \<open>The cycle loop comes to an end: its bound is finite and below \<open>2^53\<close>.\<close>

definition cyclesEnd :: "real \<Rightarrow> real \<Rightarrow> bool" where
  "cyclesEnd lifespan cycleLength =
     (case nCyclesOf lifespan cycleLength of Fin n \<Rightarrow> n < 9007199254740992 | Infty \<Rightarrow> False)"

text \<open>The normalized time of sample \<open>i\<close>.\<close>

definition xAt :: "int \<Rightarrow> nat \<Rightarrow> real" where
  "xAt points' i = real i / real_of_int (points' - 1)"

text \<open>
  The schedules that the two generators draw from a fresh instance: the cost generator
  takes the odd draws for the failure times and the even ones for the repair costs, the
  risk generator takes the first five draws for the failure times.
\<close>

definition costFailTimes :: "real \<Rightarrow> real list" where
  "costFailTimes lifespan =
     [failureTimeAt lifespan 0 (draw 1), failureTimeAt lifespan 1 (draw 3),
      failureTimeAt lifespan 2 (draw 5), failureTimeAt lifespan 3 (draw 7),
      failureTimeAt lifespan 4 (draw 9)]"

definition costFailCosts :: "real \<Rightarrow> real list" where
  "costFailCosts replacementCost' =
     [(0.3 + draw 2 * 0.2) * replacementCost', (0.3 + draw 4 * 0.2) * replacementCost',
      (0.3 + draw 6 * 0.2) * replacementCost', (0.3 + draw 8 * 0.2) * replacementCost',
      (0.3 + draw 10 * 0.2) * replacementCost']"

definition riskFailTimes :: "real \<Rightarrow> real list" where
  "riskFailTimes lifespan =
     sort [failureTimeAt lifespan 0 (draw 1), failureTimeAt lifespan 1 (draw 2),
           failureTimeAt lifespan 2 (draw 3), failureTimeAt lifespan 3 (draw 4),
           failureTimeAt lifespan 4 (draw 5)]"

text \<open>
  The curves and the result record that the entry point returns for the parameters \<open>P\<close>,
  when it returns (lemma \<open>simulate_returns\<close> below).
\<close>

definition costCurveOf :: "DashboardParams \<Rightarrow> CurvePoint list" where
  "costCurveOf P =
     map (\<lambda>i. the (costSample (lifespanYears P) (replacementCost P) (cycleLengthYears P)
                     (points P) (costFailTimes (lifespanYears P))
                     (costFailCosts (replacementCost P))
                     (interventionSchedule (lifespanYears P)) i))
         [0..<nat (points P)]"

definition riskCurveOf :: "DashboardParams \<Rightarrow> CurvePoint list" where
  "riskCurveOf P =
     riskLoop (riskSample (lifespanYears P) (riskAlpha P) (minLof P) (replacementCost P)
                 (cycleLengthYears P) (threshold P) (points P)
                 (riskFailTimes (lifespanYears P)))
       [0..<nat (points P)]
       \<lparr>currentLof = minLof P * 1.5, lastFailureTime = 0, failureIndex = 0\<rparr>"

definition curvesOf :: "DashboardParams \<Rightarrow> Curves" where
  "curvesOf P =
     \<lparr>cost = costCurveOf P, risk = riskCurveOf P,
      totalCosts = \<lparr>noFix = noFix (last (costCurveOf P)),
                     fixInPlan = fixInPlan (last (costCurveOf P)),
                     fixOnFail = fixOnFail (last (costCurveOf P)),
                     fixOnRisk = fixOnRisk (last (costCurveOf P))\<rparr>,
      averageRisk = calculateAverageRisk (riskCurveOf P),
      thresholdDollar = threshold P * replacementCost P\<rparr>"

text \<open>What an outcome of the entry point says about cost: the cost curves and the total costs.\<close>

definition costView :: "((error + Curves) \<times> heap) option \<Rightarrow> (error + CurvePoint list \<times> StrategyValues) option" where
  "costView out = map_option (\<lambda>(res, h). map_sum id (\<lambda>r. (cost r, totalCosts r)) res) out"

text \<open>The default parameters of the dashboard (\<^verbatim>\<open>defaultParams\<close> in App.tsx).\<close>

definition scenario :: DashboardParams where
  "scenario = \<lparr>lifespanYears = 30, replacementCost = 1000000, riskAlpha = 6, minLof = 0.05,
                cycleLengthYears = 5, threshold = 0.4, points = 500\<rparr>"

section \<open>Properties\<close>

subsection \<open>The sequence generator and the failure schedules\<close>

lemma maxFailures_eq: "maxFailures = 5"
  by (simp add: maxFailures_def)

lemma upt_0_5: "[0..<5] = [0, 1, 2, 3, 4]"
  by (simp add: upt_rec)

lemma rng_call_fresh:
  "rng_call (length h) (h @ [s]) = (mulberry32_mix (s + 0x6d2b79f5), h @ [s + 0x6d2b79f5])"
  by (simp add: rng_call_def Let_def)




lemma riskFailureSchedule_fresh:
  "riskFailureSchedule (length h) lifespan (h @ [42]) =
     (sort [failureTimeAt lifespan 0 (draw 1), failureTimeAt lifespan 1 (draw 2),
       failureTimeAt lifespan 2 (draw 3), failureTimeAt lifespan 3 (draw 4),
       failureTimeAt lifespan 4 (draw 5)],
      h @ [9157829107])"
  by (simp add: riskFailureSchedule_def maxFailures_eq upt_0_5 riskFailureStep_def
      rng_call_fresh failureTimeAt_def draw_def Let_def del: sort_key_simps)

lemma costFailureSchedule_fresh:
  "costFailureSchedule (length h) lifespan rc (h @ [42]) =
     ([failureTimeAt lifespan 0 (draw 1), failureTimeAt lifespan 1 (draw 3),
       failureTimeAt lifespan 2 (draw 5), failureTimeAt lifespan 3 (draw 7),
       failureTimeAt lifespan 4 (draw 9)],
      [(0.3 + draw 2 * 0.2) * rc, (0.3 + draw 4 * 0.2) * rc, (0.3 + draw 6 * 0.2) * rc,
       (0.3 + draw 8 * 0.2) * rc, (0.3 + draw 10 * 0.2) * rc],
      h @ [18315658172])"
  by (simp add: costFailureSchedule_def maxFailures_eq upt_0_5 costFailureStep_def
      rng_call_fresh failureTimeAt_def draw_def Let_def)

subsection \<open>The loops of the cost generator\<close>

text \<open>
  With a finite bound below \<open>2^53\<close> the cycle loop returns the sum of the cycle costs due;
  with any other bound it does not return.
\<close>

lemma cycleLoop_Fin:
  assumes "n < 9007199254740992"
  shows "cycleLoop t cl C (Fin n) c acc =
     Some (acc + (\<Sum>k\<leftarrow>[c..n]. if t \<ge> real_of_int k * cl then C else 0))"
proof (induction "nat (n + 1 - c)" arbitrary: c acc)
  case 0
  then have "\<not> c \<le> n" by simp
  then show ?case
    by (subst cycleLoop.simps) simp
next
  case (Suc m)
  then have le: "c \<le> n" and m: "m = nat (n + 1 - (c + 1))" by simp_all
  have small: "c < 9007199254740992" using le assms by simp
  have up: "[c..n] = c # [c + 1..n]"
    using le by (simp add: upto_rec1)
  show ?case
    by (subst cycleLoop.simps) (simp add: le small Suc.hyps(1) [OF m] up)
qed

lemma cycleLoop_returns_ends:
  assumes "cycleLoop t cl C b c acc = Some r"
  shows "c \<le> 9007199254740992 \<longrightarrow> (\<exists>n. b = Fin n \<and> n < 9007199254740992)"
proof (rule cycleLoop.raw_induct
    [where P = "\<lambda>t cl C b c acc r.
       c \<le> 9007199254740992 \<longrightarrow> (\<exists>n. b = Fin n \<and> n < 9007199254740992)", OF _ assms])
  fix f t cl C b c acc r
  assume ih: "\<And>t cl C b c acc y. f t cl C b c acc = Some y \<Longrightarrow>
      c \<le> 9007199254740992 \<longrightarrow> (\<exists>n. b = Fin n \<and> n < 9007199254740992)"
    and eq: "(if withinBound c b
              then f t cl C b (if c < 9007199254740992 then c + 1 else c)
                     (if real_of_int c * cl \<le> t then acc + C else acc)
              else Some acc) = Some r"
  show "c \<le> 9007199254740992 \<longrightarrow> (\<exists>n. b = Fin n \<and> n < 9007199254740992)"
  proof
    assume c: "c \<le> 9007199254740992"
    show "\<exists>n. b = Fin n \<and> n < 9007199254740992"
    proof (cases "withinBound c b")
      case True
      with eq have "f t cl C b (if c < 9007199254740992 then c + 1 else c)
          (if real_of_int c * cl \<le> t then acc + C else acc) = Some r"
        by simp
      from ih [OF this] c show ?thesis by (simp split: if_splits)
    next
      case False
      then show ?thesis using c by (cases b) simp_all
    qed
  qed
qed

lemma cycleLoop_Infty: "cycleLoop t cl C Infty 1 acc = None"
proof (cases "cycleLoop t cl C Infty 1 acc")
  case (Some r)
  from cycleLoop_returns_ends [OF this] show ?thesis by simp
qed simp

lemma cycleLoop_big:
  assumes "9007199254740992 \<le> n"
  shows "cycleLoop t cl C (Fin n) 1 acc = None"
proof (cases "cycleLoop t cl C (Fin n) 1 acc")
  case (Some r)
  from cycleLoop_returns_ends [OF this] assms show ?thesis by simp
qed simp

lemma costLoop_eq:
  "costLoop body is acc =
     (if \<forall>i\<in>set is. body i \<noteq> None then Some (acc @ map (\<lambda>i. the (body i)) is) else None)"
  by (induction "is" arbitrary: acc) (auto split: option.splits)

subsection \<open>The sample loops and the generators\<close>

lemma fold_cond_add:
  "fold (\<lambda>j acc. if P j then acc + g j else acc) js (a::real) =
     a + (\<Sum>j\<leftarrow>js. if P j then g j else 0)"
  by (induction js arbitrary: a) simp_all

lemma costSample_Fin:
  assumes "nCyclesOf lifespan cl = Fin n" and "n < 9007199254740992"
  shows "costSample lifespan rc cl pts ft fc iv i =
     Some \<lparr>noFix = (0.05 * rc * (xAt pts i * lifespan)) / lifespan
                      + (if xAt pts i * lifespan \<ge> 0.9 * lifespan then rc else 0),
            fixInPlan = (0.02 * rc * (xAt pts i * lifespan)) / lifespan
                      + (\<Sum>k\<leftarrow>[1..n]. if xAt pts i * lifespan \<ge> real_of_int k * cl
                                     then 0.15 * rc else 0),
            fixOnFail = (0.01 * rc * (xAt pts i * lifespan)) / lifespan
                      + (\<Sum>j\<leftarrow>[0..<length ft]. if xAt pts i * lifespan \<ge> ft ! j
                                     then fc ! j else 0),
            fixOnRisk = (0.02 * rc * (xAt pts i * lifespan)) / lifespan
                      + (\<Sum>tInt\<leftarrow>iv. if xAt pts i * lifespan \<ge> tInt then 0.2 * rc else 0),
            t_abs = xAt pts i * lifespan, x_norm = xAt pts i\<rparr>"
  unfolding costSample_def Let_def assms(1) cycleLoop_Fin [OF assms(2)] xAt_def
  by (simp add: fold_cond_add)

lemma cyclesEnd_Fin:
  assumes "cyclesEnd lifespan cl"
  obtains n where "nCyclesOf lifespan cl = Fin n" and "n < 9007199254740992"
  using assms by (auto simp: cyclesEnd_def split: bound.splits)

lemma cyclesEnd_I:
  assumes "cl \<noteq> 0" and "lifespan / cl < 2 ^ 52"
  shows "cyclesEnd lifespan cl"
proof -
  have "\<not> (2::real) ^ 1024 \<le> lifespan / cl"
    using assms(2) by simp
  moreover have "\<lfloor>lifespan / cl\<rfloor> < 9007199254740992"
    using assms(2) by (simp add: floor_less_iff)
  ultimately show ?thesis
    using assms(1) by (simp add: cyclesEnd_def nCyclesOf_def)
qed

lemma costSample_no_end:
  assumes "\<not> cyclesEnd lifespan cl"
  shows "costSample lifespan rc cl pts ft fc iv i = None"
proof (cases "nCyclesOf lifespan cl")
  case (Fin n)
  with assms have "9007199254740992 \<le> n" by (simp add: cyclesEnd_def)
  then show ?thesis
    unfolding costSample_def Let_def Fin by (simp add: cycleLoop_big)
next
  case Infty
  then show ?thesis
    unfolding costSample_def Let_def by (simp add: cycleLoop_Infty)
qed

lemma generateCostCurves_eq:
  "generateCostCurves lifespan a rc cl pts h =
     (case costLoop (costSample lifespan rc cl pts (costFailTimes lifespan) (costFailCosts rc)
                       (interventionSchedule lifespan)) [0..<nat pts] [] of
        None \<Rightarrow> None
      | Some result \<Rightarrow> Some (result, h @ [18315658172]))"
  by (simp add: generateCostCurves_def mulberry32_def costFailureSchedule_fresh
      costFailTimes_def costFailCosts_def Let_def)




lemma generateRiskCurves_eq:
  "generateRiskCurves lifespan a m cof cl thr pts h =
     (riskLoop (riskSample lifespan a m cof cl thr pts (riskFailTimes lifespan)) [0..<nat pts]
        \<lparr>currentLof = m * 1.5, lastFailureTime = 0, failureIndex = 0\<rparr>,
      h @ [9157829107])"
  by (simp add: generateRiskCurves_def mulberry32_def riskFailureSchedule_fresh
      riskFailTimes_def Let_def del: sort_key_simps)

subsection \<open>The three outcomes of the entry point\<close>

lemma length_costCurveOf: "length (costCurveOf P) = nat (points P)"
  by (simp add: costCurveOf_def)


lemma generateCostCurves_Fin:
  assumes "cyclesEnd lifespan cl"
  shows "generateCostCurves lifespan a rc cl pts h =
     Some (map (\<lambda>i. the (costSample lifespan rc cl pts (costFailTimes lifespan)
                            (costFailCosts rc) (interventionSchedule lifespan) i))
               [0..<nat pts],
           h @ [18315658172])"
proof -
  from assms obtain n where fin: "nCyclesOf lifespan cl = Fin n" "n < 9007199254740992"
    by (rule cyclesEnd_Fin)
  show ?thesis
    by (simp add: generateCostCurves_eq costLoop_eq costSample_Fin [OF fin])
qed

lemma generateCostCurves_no_end:
  assumes "\<not> cyclesEnd lifespan cl" and "1 \<le> pts"
  shows "generateCostCurves lifespan a rc cl pts h = None"
proof -
  have "0 \<in> set [0..<nat pts]" using assms(2) by simp
  then have "\<not> (\<forall>i\<in>set [0..<nat pts].
      costSample lifespan rc cl pts (costFailTimes lifespan) (costFailCosts rc)
        (interventionSchedule lifespan) i \<noteq> None)"
    using costSample_no_end [OF assms(1)] by blast
  then show ?thesis
    unfolding generateCostCurves_eq costLoop_eq by simp
qed

lemma generateCostCurves_empty:
  assumes "pts \<le> 0"
  shows "generateCostCurves lifespan a rc cl pts h = Some ([], h @ [18315658172])"
  using assms by (simp add: generateCostCurves_eq)

lemma simulate_diverges:
  assumes "\<not> cyclesEnd (lifespanYears P) (cycleLengthYears P)" and "1 \<le> points P"
  shows "generateDashboardCurves P h = None"
  using generateCostCurves_no_end [OF assms]
  by (simp add: generateDashboardCurves_def Let_def)

lemma simulate_throws:
  assumes "points P \<le> 0"
  shows "generateDashboardCurves P h = Some (Inl TypeError, h @ [18315658172, 9157829107])"
  using assms
  by (simp add: generateDashboardCurves_def Let_def generateCostCurves_empty
      generateRiskCurves_eq calculateTotalCosts_def)

lemma simulate_returns:
  assumes "1 \<le> points P" and "cyclesEnd (lifespanYears P) (cycleLengthYears P)"
  shows "generateDashboardCurves P h = Some (Inr (curvesOf P), h @ [18315658172, 9157829107])"
proof -
  have ne: "costCurveOf P \<noteq> []"
    using assms(1) length_costCurveOf [of P] by auto
  have cost: "generateCostCurves (lifespanYears P) a (replacementCost P) (cycleLengthYears P)
                (points P) h = Some (costCurveOf P, h @ [18315658172])" for a
    by (simp add: generateCostCurves_Fin [OF assms(2)] costCurveOf_def)
  have risk: "generateRiskCurves (lifespanYears P) (riskAlpha P) (minLof P) (replacementCost P)
                (cycleLengthYears P) (threshold P) (points P) h' =
              (riskCurveOf P, h' @ [9157829107])" for h'
    by (simp add: generateRiskCurves_eq riskCurveOf_def)
  have total: "calculateTotalCosts (costCurveOf P) =
      Inr \<lparr>noFix = noFix (last (costCurveOf P)), fixInPlan = fixInPlan (last (costCurveOf P)),
           fixOnFail = fixOnFail (last (costCurveOf P)),
           fixOnRisk = fixOnRisk (last (costCurveOf P))\<rparr>"
    using ne by (simp add: calculateTotalCosts_def Let_def last_conv_nth)
  show ?thesis
    by (simp add: generateDashboardCurves_def Let_def cost risk total curvesOf_def)
qed

lemma simulate_Inr:
  assumes "generateDashboardCurves P h = Some (Inr r, h')"
  shows "1 \<le> points P \<and> cyclesEnd (lifespanYears P) (cycleLengthYears P) \<and> r = curvesOf P"
proof -
  have p: "1 \<le> points P"
  proof (rule ccontr)
    assume "\<not> 1 \<le> points P"
    then have "points P \<le> 0" by simp
    from simulate_throws [OF this, of h] assms show False by simp
  qed
  have c: "cyclesEnd (lifespanYears P) (cycleLengthYears P)"
  proof (rule ccontr)
    assume "\<not> cyclesEnd (lifespanYears P) (cycleLengthYears P)"
    from simulate_diverges [OF this p, of h] assms show False by simp
  qed
  from simulate_returns [OF p c, of h] assms have "r = curvesOf P" by simp
  with p c show ?thesis by simp
qed

lemma costCurveOf_riskAlpha: "costCurveOf (P\<lparr>riskAlpha := a\<rparr>) = costCurveOf P"
  by (simp add: costCurveOf_def)

lemma simulate_cases:
  obtains (throws) "points P \<le> 0"
      and "\<And>h. generateDashboardCurves P h = Some (Inl TypeError, h @ [18315658172, 9157829107])"
  | (diverges) "1 \<le> points P" and "\<not> cyclesEnd (lifespanYears P) (cycleLengthYears P)"
      and "\<And>h. generateDashboardCurves P h = None"
  | (returns) "1 \<le> points P" and "cyclesEnd (lifespanYears P) (cycleLengthYears P)"
      and "\<And>h. generateDashboardCurves P h = Some (Inr (curvesOf P), h @ [18315658172, 9157829107])"
proof (cases "points P \<le> 0")
  case True
  then show ?thesis using simulate_throws throws by blast
next
  case False
  then have p: "1 \<le> points P" by simp
  show ?thesis
  proof (cases "cyclesEnd (lifespanYears P) (cycleLengthYears P)")
    case True
    then show ?thesis using p simulate_returns returns by blast
  next
    case False
    then show ?thesis using p simulate_diverges diverges by blast
  qed
qed

subsection \<open>The steepness parameter of the cost generator\<close>

text \<open>
  Claim C10. The steepness parameter \<^verbatim>\<open>_costCurveAlpha\<close> of the cost generator has no
  effect: for any two values of it the generator gives the same outcome; and the cost
  curves and total costs of the entry point (its outcome seen through \<open>costView\<close>: not
  returning, the exception, or the cost curve set with the total-cost map) do not depend
  on \<^verbatim>\<open>riskAlpha\<close>.
\<close>

theorem cost_ignores_steepness:
  "generateCostCurves lifespan a1 rc cl pts h = generateCostCurves lifespan a2 rc cl pts h \<and>
   costView (generateDashboardCurves (P\<lparr>riskAlpha := a1\<rparr>) h) =
   costView (generateDashboardCurves (P\<lparr>riskAlpha := a2\<rparr>) h)"
proof
  show "generateCostCurves lifespan a1 rc cl pts h = generateCostCurves lifespan a2 rc cl pts h"
    by (simp add: generateCostCurves_def)
  have "costView (generateDashboardCurves (P\<lparr>riskAlpha := a\<rparr>) h) =
        costView (generateDashboardCurves P h)" for a
  proof (cases P rule: simulate_cases)
    case throws
    then show ?thesis by (simp add: simulate_throws)
  next
    case diverges
    then show ?thesis by (simp add: simulate_diverges)
  next
    case returns
    then show ?thesis
      by (simp add: simulate_returns costView_def curvesOf_def costCurveOf_riskAlpha)
  qed
  then show "costView (generateDashboardCurves (P\<lparr>riskAlpha := a1\<rparr>) h) =
             costView (generateDashboardCurves (P\<lparr>riskAlpha := a2\<rparr>) h)"
    by simp
qed

subsection \<open>Determinism\<close>

text \<open>
  Claim C4. The outcome of the entry point for the parameters \<open>P\<close> (the whole result
  record: both curve sets, total costs, average risks and the threshold in dollars) is
  the same in every store of generator instances, in particular in the store that an
  earlier invocation has left: each invocation makes its own instances with seed 42 and
  reads no other. So two invocations with the same \<open>P\<close> give identical results.
\<close>

theorem simulate_deterministic:
  "map_option fst (generateDashboardCurves P h1) = map_option fst (generateDashboardCurves P h2)"
  by (cases P rule: simulate_cases) simp_all

subsection \<open>The two failure schedules\<close>

lemma draw_values:
  "draw (Suc 0) = 2581720956 / 4294967296"
  "draw 2 = 1925393290 / 4294967296"
  "draw 3 = 3661312704 / 4294967296"
  "draw 4 = 2876485805 / 4294967296"
  "draw 5 = 750819978 / 4294967296"
  "draw 7 = 1173505300 / 4294967296"
  "draw 9 = 3717185310 / 4294967296"
  by (simp_all add: draw_def mulberry32_mix_def)

lemma costFailTimes_30:
  "costFailTimes 30 =
     [72495350289 / 5368709120, 6193274853 / 335544320, 221453256459 / 10737418240,
      134860276491 / 5368709120, 30]"
  by (simp add: costFailTimes_def failureTimeAt_def draw_values)

lemma riskFailTimes_30:
  "riskFailTimes 30 =
     [72495350289 / 5368709120, 185165399691 / 10737418240, 7602560997 / 335544320,
      564985813539 / 21474836480, 62329513935 / 2147483648]"
  by (simp add: riskFailTimes_def failureTimeAt_def draw_values)

text \<open>
  Claim C1 says that the failure schedule drawn in the cost generator and the one drawn
  in the risk generator hold the same five failure times. They do not: each round of the
  cost generator's loop draws twice (offset, then repair fraction), each round of the risk
  generator's loop draws once, so from the second failure on the two loops read different
  values of the same sequence. For the default parameters (lifespan 30, replacement cost
  1000000), with the stores as the entry point passes them, the two schedules are:
\<close>

theorem failure_schedules_differ:
  "fst (costFailureSchedule 0 30 1000000 [42]) =
     [72495350289 / 5368709120, 6193274853 / 335544320, 221453256459 / 10737418240,
      134860276491 / 5368709120, 30] \<and>
   fst (riskFailureSchedule 1 30 [18315658172, 42]) =
     [72495350289 / 5368709120, 185165399691 / 10737418240, 7602560997 / 335544320,
      564985813539 / 21474836480, 62329513935 / 2147483648] \<and>
   fst (costFailureSchedule 0 30 1000000 [42]) \<noteq> fst (riskFailureSchedule 1 30 [18315658172, 42])"
proof -
  have c: "fst (costFailureSchedule 0 30 1000000 [42]) = costFailTimes 30"
    using costFailureSchedule_fresh [of "[]" 30 1000000] by (simp add: costFailTimes_def)
  have r: "fst (riskFailureSchedule 1 30 [18315658172, 42]) = riskFailTimes 30"
    using riskFailureSchedule_fresh [of "[18315658172]" 30] by (simp add: riskFailTimes_def)
  show ?thesis
    unfolding c r costFailTimes_30 riskFailTimes_30 by simp
qed

subsection \<open>Invalid parameters\<close>




subsection \<open>Summary metrics\<close>


lemma fold_sum_strategies:
  "fold (\<lambda>p sum. \<lparr>noFix = noFix sum + noFix p, fixInPlan = fixInPlan sum + fixInPlan p,
                    fixOnFail = fixOnFail sum + fixOnFail p,
                    fixOnRisk = fixOnRisk sum + fixOnRisk p\<rparr>) ps s =
   \<lparr>noFix = noFix s + sum_list (map noFix ps),
    fixInPlan = fixInPlan s + sum_list (map fixInPlan ps),
    fixOnFail = fixOnFail s + sum_list (map fixOnFail ps),
    fixOnRisk = fixOnRisk s + sum_list (map fixOnRisk ps)\<rparr>"
  for ps :: "CurvePoint list" and s :: StrategyValues
  by (induction ps arbitrary: s) (simp_all add: add.assoc)

lemma calculateAverageRisk_mean:
  "calculateAverageRisk ps =
     \<lparr>noFix = sum_list (map noFix ps) / real (length ps),
      fixInPlan = sum_list (map fixInPlan ps) / real (length ps),
      fixOnFail = sum_list (map fixOnFail ps) / real (length ps),
      fixOnRisk = sum_list (map fixOnRisk ps) / real (length ps)\<rparr>"
  by (simp add: calculateAverageRisk_def Let_def fold_sum_strategies)

text \<open>
  Claim C9. In every result record that the entry point returns, the total cost of each
  strategy is that strategy's value at the last point of the cost curve, the average
  risk of each strategy is the arithmetic mean of its values over all points of the risk
  curve, and the threshold in dollars is the threshold fraction times the replacement
  cost (the consequence of failure).
\<close>

theorem summaries_correct:
  assumes "generateDashboardCurves P h = Some (Inr r, h')"
  shows "cost r \<noteq> [] \<and>
         totalCosts r = \<lparr>noFix = noFix (last (cost r)), fixInPlan = fixInPlan (last (cost r)),
                          fixOnFail = fixOnFail (last (cost r)),
                          fixOnRisk = fixOnRisk (last (cost r))\<rparr> \<and>
         averageRisk r =
           \<lparr>noFix = sum_list (map noFix (risk r)) / real (length (risk r)),
            fixInPlan = sum_list (map fixInPlan (risk r)) / real (length (risk r)),
            fixOnFail = sum_list (map fixOnFail (risk r)) / real (length (risk r)),
            fixOnRisk = sum_list (map fixOnRisk (risk r)) / real (length (risk r))\<rparr> \<and>
         thresholdDollar r = threshold P * replacementCost P"
proof -
  from simulate_Inr [OF assms] have p: "1 \<le> points P" and r: "r = curvesOf P" by simp_all
  have "costCurveOf P \<noteq> []"
    using p length_costCurveOf [of P] by auto
  then show ?thesis
    by (simp add: r curvesOf_def calculateAverageRisk_mean)
qed

theorem summaries_correct_witness:
  "generateDashboardCurves scenario [] = Some (Inr (curvesOf scenario), [18315658172, 9157829107]) \<and>
   totalCosts (curvesOf scenario) =
     \<lparr>noFix = noFix (last (cost (curvesOf scenario))),
      fixInPlan = fixInPlan (last (cost (curvesOf scenario))),
      fixOnFail = fixOnFail (last (cost (curvesOf scenario))),
      fixOnRisk = fixOnRisk (last (cost (curvesOf scenario)))\<rparr> \<and>
   noFix (averageRisk (curvesOf scenario)) =
     sum_list (map noFix (risk (curvesOf scenario))) / real (length (risk (curvesOf scenario))) \<and>
   thresholdDollar (curvesOf scenario) = 400000"
proof -
  have ret: "generateDashboardCurves scenario [] =
      Some (Inr (curvesOf scenario), [18315658172, 9157829107])"
    using simulate_returns [of scenario "[]"] by (simp add: scenario_def cyclesEnd_I)
  from summaries_correct [OF ret] ret show ?thesis
    by (simp add: scenario_def)
qed

subsection \<open>Sample times\<close>

lemma costCurveOf_nth:
  assumes "i < nat (points P)"
    and "nCyclesOf (lifespanYears P) (cycleLengthYears P) = Fin n"
  shows "costCurveOf P ! i =
     the (costSample (lifespanYears P) (replacementCost P) (cycleLengthYears P)
            (points P) (costFailTimes (lifespanYears P)) (costFailCosts (replacementCost P))
            (interventionSchedule (lifespanYears P)) i)"
  using assms(1) by (simp add: costCurveOf_def)

lemma costCurveOf_times:
  assumes "i < nat (points P)"
    and "cyclesEnd (lifespanYears P) (cycleLengthYears P)"
  shows "x_norm (costCurveOf P ! i) = xAt (points P) i"
    and "t_abs (costCurveOf P ! i) = xAt (points P) i * lifespanYears P"
    and "noFix (costCurveOf P ! i) =
           (0.05 * replacementCost P * (xAt (points P) i * lifespanYears P)) / lifespanYears P
           + (if xAt (points P) i * lifespanYears P \<ge> 0.9 * lifespanYears P
              then replacementCost P else 0)"
proof -
  from assms(2) obtain n
    where fin: "nCyclesOf (lifespanYears P) (cycleLengthYears P) = Fin n" "n < 9007199254740992"
    by (rule cyclesEnd_Fin)
  show "x_norm (costCurveOf P ! i) = xAt (points P) i"
    and "t_abs (costCurveOf P ! i) = xAt (points P) i * lifespanYears P"
    and "noFix (costCurveOf P ! i) =
           (0.05 * replacementCost P * (xAt (points P) i * lifespanYears P)) / lifespanYears P
           + (if xAt (points P) i * lifespanYears P \<ge> 0.9 * lifespanYears P
              then replacementCost P else 0)"
    by (simp_all add: costCurveOf_nth [OF assms(1) fin(1)] costSample_Fin [OF fin])
qed











subsection \<open>The step of the No-Fix cost curve\<close>

lemma step_index: "(27 \<le> xAt 500 i * 30) = (450 \<le> i)"
proof -
  have "(27 \<le> xAt 500 i * 30) = (real 13473 \<le> real (i * 30))"
    by (simp add: xAt_def field_simps)
  also have "\<dots> = (13473 \<le> i * 30)"
    by (rule of_nat_le_iff)
  also have "\<dots> = (450 \<le> i)"
    by arith
  finally show ?thesis .
qed

lemma noFix_cost_values:
  assumes "lifespanYears P = 30" and "replacementCost P = 1000000" and "points P = 500"
    and "cyclesEnd (lifespanYears P) (cycleLengthYears P)" and "i < 500"
  shows "t_abs (costCurveOf P ! i) = xAt 500 i * 30"
    and "noFix (costCurveOf P ! i) =
      50000 * (xAt 500 i * 30 / 30) + (if i < 450 then 0 else 1000000)"
  using costCurveOf_times(2,3) [OF _ assms(4), of i] assms(5) step_index [of i]
  by (simp_all add: assms(1,2,3))

text \<open>
  Claim C5 says that with lifespan 30, replacement cost 1000000 and 500 samples the
  No-Fix cost curve jumps by exactly 1000000 at the first sample with \<open>t \<ge> 27\<close>. That
  sample is sample 450, and from sample 449 to sample 450 the curve rises by
  \<open>1000000 + 50000 / 499\<close> (about 1000100.20): the step and one sample of baseline drift.
\<close>

theorem noFix_jump_counterexample:
  "generateDashboardCurves scenario [] =
     Some (Inr (curvesOf scenario), [18315658172, 9157829107]) \<and>
   noFix (cost (curvesOf scenario) ! 450) - noFix (cost (curvesOf scenario) ! 449) =
     1000000 + 50000 / 499 \<and>
   noFix (cost (curvesOf scenario) ! 450) - noFix (cost (curvesOf scenario) ! 449) \<noteq> 1000000"
proof -
  have c: "cyclesEnd (lifespanYears scenario) (cycleLengthYears scenario)"
    by (simp add: scenario_def cyclesEnd_I)
  have ret: "generateDashboardCurves scenario [] =
      Some (Inr (curvesOf scenario), [18315658172, 9157829107])"
    using simulate_returns [OF _ c, of "[]"] by (simp add: scenario_def)
  have p: "lifespanYears scenario = 30" "replacementCost scenario = 1000000"
    "points scenario = 500"
    by (simp_all add: scenario_def)
  have "noFix (costCurveOf scenario ! 450) - noFix (costCurveOf scenario ! 449) =
      1000000 + 50000 / 499"
    by (simp add: noFix_cost_values(2) [OF p c] xAt_def)
  then show ?thesis
    using ret by (simp add: curvesOf_def)
qed

text \<open>
  Claim C5, amended. With lifespan 30, replacement cost 1000000, 500 samples, a cycle
  length other than 0 and 30 / cycle length below \<open>2^52\<close>, the entry point returns a
  result record in which the first sample whose absolute time is at least 27 is sample
  450; every No-Fix cost value is the baseline drift \<open>50000 * (t / 30)\<close> plus a step term
  that is 0 at every sample before sample 450 and exactly 1000000 from sample 450 on (the
  value of sample 449 does not include it); and from sample 449 to sample 450 the value
  rises by \<open>1000000 + 50000 / 499\<close>.
\<close>

theorem noFix_cost_step:
  assumes "lifespanYears P = 30" and "replacementCost P = 1000000" and "points P = 500"
    and "cycleLengthYears P \<noteq> 0" and "30 / cycleLengthYears P < 2 ^ 52"
  shows "\<exists>r h'. generateDashboardCurves P h = Some (Inr r, h') \<and>
       27 \<le> t_abs (cost r ! 450) \<and>
       (\<forall>i<450. t_abs (cost r ! i) < 27) \<and>
       (\<forall>i<500. noFix (cost r ! i) =
           50000 * (t_abs (cost r ! i) / 30) + (if i < 450 then 0 else 1000000)) \<and>
       noFix (cost r ! 450) - noFix (cost r ! 449) = 1000000 + 50000 / 499"
proof -
  have c: "cyclesEnd (lifespanYears P) (cycleLengthYears P)"
    using assms(4,5) by (intro cyclesEnd_I) (simp_all add: assms(1))
  have ret: "generateDashboardCurves P h = Some (Inr (curvesOf P), h @ [18315658172, 9157829107])"
    using c by (intro simulate_returns) (simp_all add: assms(3))
  note v = noFix_cost_values [OF assms(1,2,3) c]
  have a: "27 \<le> t_abs (costCurveOf P ! 450)"
    using step_index [of 450] by (simp add: v(1))
  have b: "t_abs (costCurveOf P ! i) < 27" if "i < 450" for i
    using step_index [of i] that by (simp add: v(1))
  have d: "noFix (costCurveOf P ! i) =
      50000 * (t_abs (costCurveOf P ! i) / 30) + (if i < 450 then 0 else 1000000)"
    if "i < 500" for i
    using that by (simp add: v)
  have e: "noFix (costCurveOf P ! 450) - noFix (costCurveOf P ! 449) = 1000000 + 50000 / 499"
    by (simp add: v(2) xAt_def)
  show ?thesis
    using ret a b d e by (simp add: curvesOf_def)
qed

theorem noFix_cost_step_witness:
  "\<exists>r h'. generateDashboardCurves scenario [] = Some (Inr r, h') \<and>
      27 \<le> t_abs (cost r ! 450) \<and> t_abs (cost r ! 449) < 27 \<and>
      noFix (cost r ! 450) = 50000 * (t_abs (cost r ! 450) / 30) + 1000000 \<and>
      noFix (cost r ! 449) = 50000 * (t_abs (cost r ! 449) / 30)"
proof -
  have p: "lifespanYears scenario = 30" "replacementCost scenario = 1000000"
    "points scenario = 500" "cycleLengthYears scenario \<noteq> 0"
    "30 / cycleLengthYears scenario < 2 ^ 52"
    by (simp_all add: scenario_def)
  from noFix_cost_step [OF p, of "[]"] obtain r h'
    where ret: "generateDashboardCurves scenario [] = Some (Inr r, h')"
    and a: "27 \<le> t_abs (cost r ! 450)"
    and b: "\<forall>i<450. t_abs (cost r ! i) < 27"
    and c: "\<forall>i<500. noFix (cost r ! i) =
           50000 * (t_abs (cost r ! i) / 30) + (if i < 450 then 0 else 1000000)"
    by blast
  have "noFix (cost r ! 450) = 50000 * (t_abs (cost r ! 450) / 30) + 1000000"
    "noFix (cost r ! 449) = 50000 * (t_abs (cost r ! 449) / 30)"
    using c [rule_format, of 450] c [rule_format, of 449] by simp_all
  with a b [rule_format, of 449] ret show ?thesis by auto
qed


subsection \<open>Likelihood of failure\<close>




subsection \<open>The Fix-on-Risk sawtooth\<close>







subsection \<open>Signs of the curve values\<close>















end
